theory Spec2Isabelle
  imports
    Complex_Main
    "HOL-Library.AList"
    "HOL-Library.Char_ord"
    "HOL-Library.List_Lexorder"
begin

section \<open>Python values\<close>

text \<open>
  The script handles decoded JSON: the Eufy and Tuya responses, the broadcast payloads
  and the vacuum's state mapping. Such a value is \<open>None\<close>, a bool, an int, a str, a
  list or a dict with string keys. Floats are left out. A dict is an association list
  in insertion order, as Python keeps it; its keys are distinct.
\<close>

datatype pyval =
    PNone
  | PBool bool
  | PInt int
  | PStr string
  | PList "pyval list"
  | PDict "(string \<times> pyval) list"

type_synonym dict = "(string \<times> pyval) list"

text \<open>
  Python's \<open>==\<close>: a bool compares as the integer 0 or 1, lists compare elementwise,
  two dicts are equal when they have the same size and every key of the first is a key
  of the second with an equal value. \<open>None\<close> equals only \<open>None\<close>.
\<close>

fun py_eq :: "pyval \<Rightarrow> pyval \<Rightarrow> bool" where
  "py_eq PNone PNone = True"
| "py_eq (PBool a) (PBool b) = (a = b)"
| "py_eq (PBool a) (PInt j) = ((if a then 1 else 0) = j)"
| "py_eq (PInt i) (PBool b) = (i = (if b then 1 else 0))"
| "py_eq (PInt i) (PInt j) = (i = j)"
| "py_eq (PStr s) (PStr t) = (s = t)"
| "py_eq (PList xs) (PList ys) = list_all2 py_eq xs ys"
| "py_eq (PDict a) (PDict b) =
     (length a = length b \<and>
      list_all (\<lambda>(k, v). case map_of b k of None \<Rightarrow> False | Some w \<Rightarrow> py_eq v w) a)"
| "py_eq _ _ = False"

definition py_ne :: "pyval \<Rightarrow> pyval \<Rightarrow> bool" where
  "py_ne a b = (\<not> py_eq a b)"

text \<open>Truth value of an object, as \<open>if x\<close>, \<open>not x\<close> and \<open>x or y\<close> test it.\<close>

fun truthy :: "pyval \<Rightarrow> bool" where
  "truthy PNone = False"
| "truthy (PBool b) = b"
| "truthy (PInt i) = (i \<noteq> 0)"
| "truthy (PStr s) = (s \<noteq> [])"
| "truthy (PList xs) = (xs \<noteq> [])"
| "truthy (PDict d) = (d \<noteq> [])"

definition py_or :: "pyval \<Rightarrow> pyval \<Rightarrow> pyval" where
  "py_or a b = (if truthy a then a else b)"

text \<open>
  The text of an exception. The one message that formats a value,
  \<open>f"Model {model_code} is not supported by the RoboVac integration."\<close>, is kept as
  that value.
\<close>

datatype message = Text string | ModelNotSupportedText pyval

datatype error =
    VacuumLoginError message
  | SystemExit string
  | KeyboardInterrupt
  | KeyError string
  | AttributeError
  | TypeError
  | TimeoutError
  | DiscoveryPortsNotAvailableException string
  | ModelNotSupportedException
  | OtherException string

text \<open>\<open>d.get(k)\<close>, \<open>d.get(k, default)\<close>, \<open>d[k]\<close> and \<open>k in d\<close> on a dict.\<close>

definition dict_get_default :: "dict \<Rightarrow> string \<Rightarrow> pyval \<Rightarrow> pyval" where
  "dict_get_default d k dflt = (case map_of d k of None \<Rightarrow> dflt | Some v \<Rightarrow> v)"

definition dict_get :: "dict \<Rightarrow> string \<Rightarrow> pyval" where
  "dict_get d k = dict_get_default d k PNone"

definition dict_getitem :: "dict \<Rightarrow> string \<Rightarrow> error + pyval" where
  "dict_getitem d k = (case map_of d k of None \<Rightarrow> Inl (KeyError k) | Some v \<Rightarrow> Inr v)"

definition dict_contains :: "dict \<Rightarrow> string \<Rightarrow> bool" where
  "dict_contains d k = (map_of d k \<noteq> None)"

text \<open>
  The same operations on a value of any type. Only a dict has \<open>get\<close>; \<open>in\<close> tests
  the keys of a dict, the elements of a list and the substrings of a str, and fails on
  the rest; indexing with a str key works on a dict alone.
\<close>

fun py_get :: "pyval \<Rightarrow> string \<Rightarrow> pyval \<Rightarrow> error + pyval" where
  "py_get (PDict d) k dflt = Inr (dict_get_default d k dflt)"
| "py_get _ k dflt = Inl AttributeError"

fun is_substring :: "string \<Rightarrow> string \<Rightarrow> bool" where
  "is_substring s [] = (s = [])"
| "is_substring s (c # t) = (take (length s) (c # t) = s \<or> is_substring s t)"

fun py_in :: "string \<Rightarrow> pyval \<Rightarrow> error + bool" where
  "py_in k (PDict d) = Inr (dict_contains d k)"
| "py_in k (PList xs) = Inr (list_ex (\<lambda>x. py_eq x (PStr k)) xs)"
| "py_in k (PStr s) = Inr (is_substring k s)"
| "py_in k _ = Inl TypeError"

fun py_getitem :: "pyval \<Rightarrow> string \<Rightarrow> error + pyval" where
  "py_getitem (PDict d) k = dict_getitem d k"
| "py_getitem _ k = Inl TypeError"

section \<open>Change Reporter: \<open>log_state_update\<close>\<close>

text \<open>
  The dict comprehension of \<open>log_state_update\<close>:
  \<^verbatim>\<open>
  changes = {
      key: current_state[key]
      for key in current_state
      if previous_state.get(key) != current_state[key]
  }
  \<close>
  The loop runs over the keys of \<open>current_state\<close> in order and stores each selected
  pair in the dict under construction.
\<close>

fun changes_loop :: "dict \<Rightarrow> dict \<Rightarrow> string list \<Rightarrow> dict \<Rightarrow> error + dict" where
  "changes_loop previous_state current_state [] acc = Inr acc"
| "changes_loop previous_state current_state (key # keys) acc =
     (case dict_getitem current_state key of
        Inl e \<Rightarrow> Inl e
      | Inr v \<Rightarrow>
          changes_loop previous_state current_state keys
            (if py_ne (dict_get previous_state key) v then AList.update key v acc else acc))"

definition compute_changes :: "dict \<Rightarrow> dict \<Rightarrow> error + dict" where
  "compute_changes previous_state current_state =
     changes_loop previous_state current_state (map fst current_state) []"

text \<open>
  What the callback writes to stdout: a line of text, or the block that
  \<open>json.dumps(changes, indent=2, sort_keys=True)\<close> renders, kept as the pairs in key
  order.
\<close>

datatype printed = Line string | JsonBlock dict

definition header_line :: "string \<Rightarrow> string" where
  "header_line timestamp = CHR 0x0A # ''['' @ timestamp @ ''] Received vacuum update:''"

text \<open>
  The device session as the script sees it: the constructor's arguments and the
  \<open>state\<close> property, which is unset or a mapping from field names to values.
\<close>

record robovac =
  arg_model_code :: pyval
  arg_device_id :: pyval
  arg_host :: pyval
  arg_local_key :: pyval
  state :: "dict option"

text \<open>
  \<open>log_state_update\<close> closes over \<open>vacuum\<close> and the nonlocal \<open>previous_state\<close>; the
  model takes both, with the clock's reading, and returns the new \<open>previous_state\<close>
  with the lines printed.
\<close>

definition log_state_update ::
  "string \<Rightarrow> robovac option \<Rightarrow> dict \<Rightarrow> error + (dict \<times> printed list)" where
  "log_state_update timestamp vacuum previous_state =
     (case vacuum of
        None \<Rightarrow> Inr (previous_state, [])
      | Some vac \<Rightarrow>
          (case state vac of
             None \<Rightarrow> Inr (previous_state, [])
           | Some current_state \<Rightarrow>
               if current_state = [] then Inr (previous_state, [])
               else
                 (case compute_changes previous_state current_state of
                    Inl e \<Rightarrow> Inl e
                  | Inr changes \<Rightarrow>
                      if changes = [] then Inr (current_state, [])
                      else Inr (current_state,
                             [Line (header_line timestamp),
                              JsonBlock (sort_key fst changes),
                              Line []]))))"

text \<open>
  The ChangeSet in the specification's words, on finite maps:
  \<open>{k: current[k] for k in current if previous.get(k) != current[k]}\<close>.
\<close>

definition spec_changeset ::
  "(string \<rightharpoonup> pyval) \<Rightarrow> (string \<rightharpoonup> pyval) \<Rightarrow> (string \<rightharpoonup> pyval)" where
  "spec_changeset previous current =
     (\<lambda>k. case current k of
            None \<Rightarrow> None
          | Some v \<Rightarrow>
              if py_ne (case previous k of None \<Rightarrow> PNone | Some w \<Rightarrow> w) v then Some v
              else None)"

section \<open>Account Resolver: region and country code\<close>

text \<open>
  The four lookups of the vendored module \<open>custom_components.robovac.countries\<close>,
  which is not part of the sources at hand: they are taken as parameters.
\<close>

record countries =
  get_phone_code_by_country_code :: "pyval \<Rightarrow> pyval"
  get_phone_code_by_region :: "pyval \<Rightarrow> pyval"
  get_region_by_country_code :: "pyval \<Rightarrow> pyval"
  get_region_by_phone_code :: "pyval \<Rightarrow> pyval"

text \<open>
  \<^verbatim>\<open>settings_data.get("setting", {}).get("home_setting", {}).get("tuya_home", {})\<close>
\<close>

definition tuya_home_of :: "dict \<Rightarrow> error + pyval" where
  "tuya_home_of settings_data =
     (case py_get (PDict settings_data) ''setting'' (PDict []) of
        Inl e \<Rightarrow> Inl e
      | Inr setting \<Rightarrow>
          (case py_get setting ''home_setting'' (PDict []) of
             Inl e \<Rightarrow> Inl e
           | Inr home_setting \<Rightarrow> py_get home_setting ''tuya_home'' (PDict [])))"

text \<open>
  The \<open>if\<close>/\<open>elif\<close> chain of \<open>_fetch_first_vacuum_sync\<close> that sets \<open>region\<close> and
  \<open>country_code\<close>; \<open>user_info\<close> is the dict the function has indexed before.
\<close>

definition derive_region_country ::
  "countries \<Rightarrow> pyval \<Rightarrow> dict \<Rightarrow> error + (pyval \<times> pyval)" where
  "derive_region_country cs tuya_home user_info =
     (case py_in ''tuya_region_code'' tuya_home of
        Inl e \<Rightarrow> Inl e
      | Inr has_code \<Rightarrow>
          if has_code then
            (case py_getitem tuya_home ''tuya_region_code'' of
               Inl e \<Rightarrow> Inl e
             | Inr code \<Rightarrow>
                 (let region = py_or code (PStr ''EU'') in
                  if truthy (dict_get user_info ''phone_code'') then
                    (case dict_getitem user_info ''phone_code'' of
                       Inl e \<Rightarrow> Inl e
                     | Inr phone_code \<Rightarrow> Inr (region, phone_code))
                  else Inr (region, get_phone_code_by_region cs region)))
          else if truthy (dict_get user_info ''phone_code'') then
            (case dict_getitem user_info ''phone_code'' of
               Inl e \<Rightarrow> Inl e
             | Inr phone_code \<Rightarrow> Inr (get_region_by_phone_code cs phone_code, phone_code))
          else if truthy (dict_get user_info ''country'') then
            (case dict_getitem user_info ''country'' of
               Inl e \<Rightarrow> Inl e
             | Inr country \<Rightarrow>
                 Inr (get_region_by_country_code cs country,
                      get_phone_code_by_country_code cs country))
          else Inr (PStr ''EU'', PStr ''44''))"

definition region_country :: "countries \<Rightarrow> dict \<Rightarrow> dict \<Rightarrow> error + (pyval \<times> pyval)" where
  "region_country cs settings_data user_info =
     (case tuya_home_of settings_data of
        Inl e \<Rightarrow> Inl e
      | Inr tuya_home \<Rightarrow> derive_region_country cs tuya_home user_info)"

text \<open>
  The precedence in the specification's words, on maps. A profile "has" a phone code or
  a country when the key holds a non-empty (truthy) value, which is what
  \<open>user_info.get(...)\<close> tests; the region code counts as soon as its key is there.
\<close>

definition present_value :: "(string \<rightharpoonup> pyval) \<Rightarrow> string \<Rightarrow> pyval option" where
  "present_value m k = (case m k of None \<Rightarrow> None | Some v \<Rightarrow> if truthy v then Some v else None)"

definition spec_region_country ::
  "countries \<Rightarrow> (string \<rightharpoonup> pyval) \<Rightarrow> (string \<rightharpoonup> pyval) \<Rightarrow> pyval \<times> pyval" where
  "spec_region_country cs tuya_home user =
     (case tuya_home ''tuya_region_code'' of
        Some code \<Rightarrow>
          (let region = (if truthy code then code else PStr ''EU'') in
           (region,
            case present_value user ''phone_code'' of
              Some phone_code \<Rightarrow> phone_code
            | None \<Rightarrow> get_phone_code_by_region cs region))
      | None \<Rightarrow>
          (case present_value user ''phone_code'' of
             Some phone_code \<Rightarrow> (get_region_by_phone_code cs phone_code, phone_code)
           | None \<Rightarrow>
               (case present_value user ''country'' of
                  Some country \<Rightarrow>
                    (get_region_by_country_code cs country,
                     get_phone_code_by_country_code cs country)
                | None \<Rightarrow> (PStr ''EU'', PStr ''44''))))"

section \<open>Account Resolver: the first usable vacuum\<close>

definition bindE :: "error + 'a \<Rightarrow> ('a \<Rightarrow> error + 'b) \<Rightarrow> error + 'b" where
  "bindE m f = (case m of Inl e \<Rightarrow> Inl e | Inr x \<Rightarrow> f x)"

text \<open>
  \<open>except Exception\<close> catches every error of the model but \<open>SystemExit\<close> and
  \<open>KeyboardInterrupt\<close>.
\<close>

fun is_exception :: "error \<Rightarrow> bool" where
  "is_exception (SystemExit m) = False"
| "is_exception KeyboardInterrupt = False"
| "is_exception _ = True"

text \<open>The two debug records the loop writes, with the device id they name.\<close>

datatype log_entry = SkipApiError pyval error | NoLocalKey pyval

text \<open>One pass through the loop body either continues, with what it logged, or returns.\<close>

datatype step = Continue "log_entry list" | Return dict

text \<open>
  The body of \<open>for item in devices\<close>. \<open>get_device\<close> stands for
  \<open>tuya_client.get_device\<close>, the call to the Tuya API. The read \<open>item["id"]\<close> is
  inside the \<open>try\<close>, so its \<open>KeyError\<close> is caught like an error of the API.
\<close>

fun try_device :: "(pyval \<Rightarrow> error + pyval) \<Rightarrow> pyval \<Rightarrow> error + step" where
  "try_device get_device (PDict item) =
     (let product = dict_get_default item ''product'' (PDict []) in
      bindE (py_get product ''appliance'' PNone) (\<lambda>appliance.
        if py_ne appliance (PStr ''Cleaning'') then Inr (Continue [])
        else
          (case bindE (dict_getitem item ''id'') get_device of
             Inl err \<Rightarrow>
               if is_exception err
               then Inr (Continue [SkipApiError (dict_get item ''id'') err])
               else Inl err
           | Inr tuya_device \<Rightarrow>
               bindE (py_get tuya_device ''localKey'' PNone) (\<lambda>access_token.
                 if \<not> truthy access_token
                 then Inr (Continue [NoLocalKey (dict_get item ''id'')])
                 else
                   bindE (dict_getitem item ''id'') (\<lambda>ident.
                   bindE (py_get product ''product_code'' (PStr [])) (\<lambda>model.
                   bindE (py_get (dict_get_default item ''wifi'' (PDict [])) ''mac'' PNone)
                     (\<lambda>mac.
                       Inr (Return
                         [(''id'', ident),
                          (''name'',
                             py_or (py_or (dict_get item ''alias_name'') (dict_get item ''name''))
                               (PStr ''RoboVac'')),
                          (''model'', model),
                          (''description'',
                             dict_get_default item ''name'' (PStr ''Eufy RoboVac'')),
                          (''mac'', mac),
                          (''access_token'', access_token)]))))))))"
| "try_device get_device _ = Inl AttributeError"

definition no_vacuum_message :: string where
  "no_vacuum_message = ''No RoboVac devices were found on this Eufy account.''"

fun find_vacuum ::
  "(pyval \<Rightarrow> error + pyval) \<Rightarrow> pyval list \<Rightarrow> (error + dict) \<times> log_entry list" where
  "find_vacuum get_device [] = (Inl (VacuumLoginError (Text no_vacuum_message)), [])"
| "find_vacuum get_device (item # devices) =
     (case try_device get_device item of
        Inl e \<Rightarrow> (Inl e, [])
      | Inr (Return details) \<Rightarrow> (Inr details, [])
      | Inr (Continue logged) \<Rightarrow>
          (case find_vacuum get_device devices of (r, l) \<Rightarrow> (r, logged @ l)))"

text \<open>
  The specification's reading of a device record. Its appliance category is the
  \<open>appliance\<close> entry of its \<open>product\<close>; its local key is what the Tuya API answers
  for its id, or the error of that request.
\<close>

fun is_dict :: "pyval \<Rightarrow> bool" where
  "is_dict (PDict d) = True"
| "is_dict _ = False"

fun entries :: "pyval \<Rightarrow> dict" where
  "entries (PDict d) = d"
| "entries _ = []"

definition appliance_of :: "pyval \<Rightarrow> pyval" where
  "appliance_of item = dict_get (entries (dict_get (entries item) ''product'')) ''appliance''"

definition is_cleaning :: "pyval \<Rightarrow> bool" where
  "is_cleaning item = py_eq (appliance_of item) (PStr ''Cleaning'')"

definition request_local_key :: "(pyval \<Rightarrow> error + pyval) \<Rightarrow> pyval \<Rightarrow> error + pyval" where
  "request_local_key get_device item =
     (case map_of (entries item) ''id'' of
        None \<Rightarrow> Inl (KeyError ''id'')
      | Some ident \<Rightarrow>
          (case get_device ident of
             Inl e \<Rightarrow> Inl e
           | Inr tuya_device \<Rightarrow> Inr (dict_get (entries tuya_device) ''localKey'')))"

definition usable :: "(pyval \<Rightarrow> error + pyval) \<Rightarrow> pyval \<Rightarrow> bool" where
  "usable get_device item =
     (is_cleaning item \<and>
      (case request_local_key get_device item of Inl e \<Rightarrow> False | Inr k \<Rightarrow> truthy k))"

definition skip_log :: "(pyval \<Rightarrow> error + pyval) \<Rightarrow> pyval \<Rightarrow> log_entry list" where
  "skip_log get_device item =
     (if is_cleaning item then
        (case request_local_key get_device item of
           Inl e \<Rightarrow> [SkipApiError (dict_get (entries item) ''id'') e]
         | Inr k \<Rightarrow> [NoLocalKey (dict_get (entries item) ''id'')])
      else [])"

definition descriptor :: "(pyval \<Rightarrow> error + pyval) \<Rightarrow> pyval \<Rightarrow> dict" where
  "descriptor get_device item =
     [(''id'', dict_get (entries item) ''id''),
      (''name'',
         if truthy (dict_get (entries item) ''alias_name'') then dict_get (entries item) ''alias_name''
         else if truthy (dict_get (entries item) ''name'') then dict_get (entries item) ''name''
         else PStr ''RoboVac''),
      (''model'',
         dict_get_default (entries (dict_get (entries item) ''product'')) ''product_code'' (PStr [])),
      (''description'', dict_get_default (entries item) ''name'' (PStr ''Eufy RoboVac'')),
      (''mac'', dict_get (entries (dict_get (entries item) ''wifi'')) ''mac''),
      (''access_token'',
         case request_local_key get_device item of Inl e \<Rightarrow> PNone | Inr k \<Rightarrow> k)]"

text \<open>
  Well-formed input: a device record is a JSON object whose \<open>product\<close> and \<open>wifi\<close>
  entries, where present, are objects, and the Tuya API answers a request with an
  object or fails with an \<open>Exception\<close>.
\<close>

definition wf_device :: "(pyval \<Rightarrow> error + pyval) \<Rightarrow> pyval \<Rightarrow> bool" where
  "wf_device get_device item =
     (is_dict item \<and>
      is_dict (dict_get_default (entries item) ''product'' (PDict [])) \<and>
      is_dict (dict_get_default (entries item) ''wifi'' (PDict [])) \<and>
      (case map_of (entries item) ''id'' of
         None \<Rightarrow> True
       | Some ident \<Rightarrow>
           (case get_device ident of Inl e \<Rightarrow> is_exception e | Inr t \<Rightarrow> is_dict t)))"

text \<open>
  An account for the examples: a lamp, a vacuum whose Tuya request fails, a vacuum
  without a local key, and two vacuums with one.
\<close>

definition example_get_device :: "pyval \<Rightarrow> error + pyval" where
  "example_get_device ident =
     (if ident = PStr ''v1'' then Inl (OtherException ''tuya request failed'')
      else if ident = PStr ''v2'' then Inr (PDict [(''localKey'', PStr [])])
      else Inr (PDict [(''localKey'', PStr ''key3''), (''ip'', PStr ''192.168.1.42'')]))"

definition example_devices :: "pyval list" where
  "example_devices =
     [PDict [(''id'', PStr ''l0''), (''name'', PStr ''Lamp''),
             (''product'', PDict [(''appliance'', PStr ''Light'')])],
      PDict [(''id'', PStr ''v1''), (''name'', PStr ''First''),
             (''product'', PDict [(''appliance'', PStr ''Cleaning'')])],
      PDict [(''id'', PStr ''v2''), (''name'', PStr ''Second''),
             (''product'', PDict [(''appliance'', PStr ''Cleaning'')])],
      PDict [(''id'', PStr ''v3''), (''alias_name'', PStr ''Robo''), (''name'', PStr ''Third''),
             (''product'',
                PDict [(''appliance'', PStr ''Cleaning''), (''product_code'', PStr ''T2118ABC'')]),
             (''wifi'', PDict [(''mac'', PStr ''aa:bb'')])],
      PDict [(''id'', PStr ''v4''), (''name'', PStr ''Fourth''),
             (''product'', PDict [(''appliance'', PStr ''Cleaning'')])]]"

section \<open>LAN discovery: \<open>discover_device_ip\<close>\<close>

text \<open>
  \<open>ip_future\<close> is pending, holds its result, or is cancelled; \<open>done()\<close> is true of
  the last two.
\<close>

datatype future = Pending | Resolved pyval | Cancelled

fun future_done :: "future \<Rightarrow> bool" where
  "future_done Pending = False"
| "future_done _ = True"

text \<open>
  What happens to the listener and the future: \<open>discovery.start()\<close> is called,
  \<open>discovery.close()\<close> is called, \<open>ip_future.set_result(ip)\<close> is called together with
  its log record.
\<close>

datatype discovery_event = ListenerStart | ListenerClose | SetResult pyval pyval

definition handle_discovery ::
  "pyval \<Rightarrow> dict \<Rightarrow> future \<Rightarrow> future \<times> discovery_event list" where
  "handle_discovery device_id payload ip_future =
     (if py_ne (dict_get payload ''gwId'') device_id then (ip_future, [])
      else
        (let ip_address = dict_get payload ''ip'' in
         if truthy ip_address \<and> \<not> future_done ip_future
         then (Resolved ip_address, [SetResult device_id ip_address])
         else (ip_future, [])))"

text \<open>The listener calls the handler once for each payload it receives, in order.\<close>

fun deliver :: "pyval \<Rightarrow> dict list \<Rightarrow> future \<Rightarrow> future \<times> discovery_event list" where
  "deliver device_id [] ip_future = (ip_future, [])"
| "deliver device_id (payload # payloads) ip_future =
     (case handle_discovery device_id payload ip_future of
        (fut, evs) \<Rightarrow>
          (case deliver device_id payloads fut of (fut', evs') \<Rightarrow> (fut', evs @ evs')))"

text \<open>
  \<open>asyncio.wait_for(ip_future, timeout)\<close> at the end of the wait: the result of the
  future if it has one, \<open>TimeoutError\<close> otherwise.
\<close>

fun wait_for :: "future \<Rightarrow> error + pyval" where
  "wait_for (Resolved ip) = Inr ip"
| "wait_for _ = Inl TimeoutError"

definition timeout_message :: string where
  "timeout_message =
     ''Timed out waiting for the vacuum to announce itself on the local network.''"

text \<open>
  The network is an input: \<open>start_error\<close> is the exception of \<open>discovery.start()\<close>,
  if it raises one, and \<open>broadcasts\<close> are the payloads on the network, each with the
  time in seconds from the start of the wait at which it arrives. The handler sees those
  that arrive before the timeout expires.
\<close>

definition discover_device_ip ::
  "pyval \<Rightarrow> real \<Rightarrow> error option \<Rightarrow> (real \<times> dict) list \<Rightarrow>
     (error + pyval) \<times> discovery_event list" where
  "discover_device_ip device_id timeout start_error broadcasts =
     (case start_error of
        Some err \<Rightarrow>
          (case err of
             DiscoveryPortsNotAvailableException m \<Rightarrow>
               (Inl (VacuumLoginError (Text m)), [ListenerStart, ListenerClose])
           | _ \<Rightarrow> (Inl err, [ListenerStart]))
      | None \<Rightarrow>
          (case deliver device_id
                  (map snd (filter (\<lambda>(t, payload). t < timeout) broadcasts)) Pending of
             (fut, evs) \<Rightarrow>
               ((case wait_for fut of
                   Inl TimeoutError \<Rightarrow> Inl (VacuumLoginError (Text timeout_message))
                 | r \<Rightarrow> r),
                ListenerStart # evs @ [ListenerClose])))"

text \<open>The default of the parameter: \<open>timeout: float = 60.0\<close>.\<close>

definition discover_device_ip_default ::
  "pyval \<Rightarrow> error option \<Rightarrow> (real \<times> dict) list \<Rightarrow> (error + pyval) \<times> discovery_event list" where
  "discover_device_ip_default device_id = discover_device_ip device_id 60"

text \<open>
  In the specification's words: a payload announces the device when its \<open>gwId\<close> is the
  device id and its \<open>ip\<close> is not empty.
\<close>

definition announces :: "pyval \<Rightarrow> dict \<Rightarrow> bool" where
  "announces device_id payload =
     (py_eq (dict_get payload ''gwId'') device_id \<and> truthy (dict_get payload ''ip''))"

definition arrived_within :: "real \<Rightarrow> (real \<times> dict) list \<Rightarrow> dict list" where
  "arrived_within timeout broadcasts = map snd (filter (\<lambda>(t, payload). t < timeout) broadcasts)"

section \<open>Main Orchestrator: \<open>main\<close>\<close>

text \<open>The slice \<open>x[:5]\<close>: of a str or a list; no other value of the model has one.\<close>

fun py_slice5 :: "pyval \<Rightarrow> error + pyval" where
  "py_slice5 (PStr s) = Inr (PStr (take 5 s))"
| "py_slice5 (PList xs) = Inr (PList (take 5 xs))"
| "py_slice5 _ = Inl TypeError"

text \<open>
  Modelled from the spec: the constructor of the vendored class \<open>RoboVac\<close>, whose
  source is not at hand. Of the device session the specification says that construction
  fails if the model code is not in the set of recognized/supported models; \<open>main\<close>
  catches that failure as \<open>ModelNotSupportedException\<close>. The set is a parameter. A
  new session has no state yet.
\<close>

definition RoboVac ::
  "(pyval \<Rightarrow> bool) \<Rightarrow> pyval \<Rightarrow> pyval \<Rightarrow> pyval \<Rightarrow> pyval \<Rightarrow> error + robovac" where
  "RoboVac supported model_code device_id host local_key =
     (if supported model_code
      then Inr \<lparr>arg_model_code = model_code, arg_device_id = device_id, arg_host = host,
                arg_local_key = local_key, state = None\<rparr>
      else Inl ModelNotSupportedException)"

text \<open>
  What \<open>main\<close> does to the session and to stdout: the constructor is called with a
  model code, \<open>async_connect\<close>, \<open>async_get\<close>, a \<open>print\<close>, one \<open>asyncio.sleep(1)\<close>,
  \<open>async_disconnect\<close>.
\<close>

datatype main_event = Construct pyval | Connect | GetState | Print printed | Sleep | Disconnect

text \<open>
  The world around \<open>main\<close>: the outcome of the account resolution and of the
  discovery, the models the session supports, the errors of the session's calls if they
  raise, the state the session holds after \<open>async_get\<close>, the clock, and the exception
  that ends the idle loop with the number of sleeps before it (none if the loop is never
  interrupted).
\<close>

record main_env =
  fetch_first_vacuum :: "string \<Rightarrow> string \<Rightarrow> error + dict"
  discover :: "pyval \<Rightarrow> error + pyval"
  supported_model :: "pyval \<Rightarrow> bool"
  connect_error :: "error option"
  get_error :: "error option"
  state_after_get :: "dict option"
  clock :: string
  interrupt :: "(nat \<times> error) option"
  disconnect_error :: "error option"

definition usage_message :: string where
  "usage_message = ''Both email and password are required.''"

definition no_model_message :: string where
  "no_model_message = ''The vacuum did not report a model code.''"

definition listening_message :: string where
  "listening_message =
     ''Listening for vacuum status changes... Go to your Eufy app and start a room '' @
     ''clean to see the logs. Press Ctrl+C to exit.''"

definition disconnecting_message :: string where
  "disconnecting_message = CHR 0x0A # ''Disconnecting from the vacuum...''"

text \<open>\<open>while True: await asyncio.sleep(1)\<close>, for as long as nothing interrupts it.\<close>

fun idle :: "nat \<Rightarrow> main_event list" where
  "idle 0 = []"
| "idle (Suc n) = Sleep # idle n"

text \<open>
  The body of the last \<open>try\<close>. It has no normal end: it stops with an exception, or
  never (\<open>None\<close>).
\<close>

definition listen :: "main_env \<Rightarrow> robovac \<Rightarrow> error option \<times> main_event list" where
  "listen env vacuum =
     (case connect_error env of
        Some e \<Rightarrow> (Some e, [Connect])
      | None \<Rightarrow>
          (case get_error env of
             Some e \<Rightarrow> (Some e, [Connect, GetState])
           | None \<Rightarrow>
               (case log_state_update (clock env)
                       (Some (vacuum\<lparr>state := state_after_get env\<rparr>)) [] of
                  Inl e \<Rightarrow> (Some e, [Connect, GetState])
                | Inr (previous_state, out) \<Rightarrow>
                    (let evs = [Connect, GetState] @ map Print out @
                               [Print (Line listening_message)]
                     in case interrupt env of
                          None \<Rightarrow> (None, evs)
                        | Some (n, e) \<Rightarrow> (Some e, evs @ idle n)))))"

text \<open>The \<open>try\<close> with its \<open>except KeyboardInterrupt\<close> and its \<open>finally\<close>.\<close>

definition run_session ::
  "main_env \<Rightarrow> robovac \<Rightarrow> ((error + unit) \<times> main_event list) option" where
  "run_session env vacuum =
     (case listen env vacuum of
        (None, evs) \<Rightarrow> None
      | (Some e, evs) \<Rightarrow>
          (let (r, evs') =
                 (if e = KeyboardInterrupt
                  then (Inr (), evs @ [Print (Line disconnecting_message)])
                  else (Inl e, evs))
           in case disconnect_error env of
                Some e' \<Rightarrow> Some (Inl e', evs' @ [Disconnect])
              | None \<Rightarrow> Some (r, evs' @ [Disconnect])))"

text \<open>
  \<open>main\<close>, from the two answers to its prompts; \<open>email\<close> is the answer with the
  surrounding white space stripped. The log record after the account resolution reads
  \<open>vacuum_details["name"]\<close> and \<open>vacuum_details["model"]\<close>.
\<close>

definition main ::
  "main_env \<Rightarrow> string \<Rightarrow> string \<Rightarrow> ((error + unit) \<times> main_event list) option" where
  "main env email password =
     (if email = [] \<or> password = [] then Some (Inl (SystemExit usage_message), [])
      else
        (case fetch_first_vacuum env email password of
           Inl e \<Rightarrow> Some (Inl e, [])
         | Inr details \<Rightarrow>
             (case bindE (dict_getitem details ''name'') (\<lambda>name.
                   bindE (dict_getitem details ''model'') (\<lambda>model.
                   bindE (dict_getitem details ''id'') (discover env))) of
                Inl e \<Rightarrow> Some (Inl e, [])
              | Inr ip_address \<Rightarrow>
                  (let vacuum_details = AList.update ''ip_address'' ip_address details in
                   case py_slice5 (py_or (dict_get vacuum_details ''model'') (PStr [])) of
                     Inl e \<Rightarrow> Some (Inl e, [])
                   | Inr model_code \<Rightarrow>
                       if \<not> truthy model_code
                       then Some (Inl (VacuumLoginError (Text no_model_message)), [])
                       else
                         (case bindE (dict_getitem vacuum_details ''id'') (\<lambda>device_id.
                               bindE (dict_getitem vacuum_details ''ip_address'') (\<lambda>host.
                               bindE (dict_getitem vacuum_details ''access_token'') (\<lambda>local_key.
                                 Inr (device_id, host, local_key)))) of
                            Inl e \<Rightarrow> Some (Inl e, [])
                          | Inr (device_id, host, local_key) \<Rightarrow>
                              (case RoboVac (supported_model env) model_code device_id host
                                      local_key of
                                 Inl err \<Rightarrow>
                                   Some (Inl (if err = ModelNotSupportedException
                                              then VacuumLoginError
                                                     (ModelNotSupportedText model_code)
                                              else err),
                                         [Construct model_code])
                               | Inr vacuum \<Rightarrow>
                                   map_option (\<lambda>(r, evs). (r, Construct model_code # evs))
                                     (run_session env vacuum)))))))"

text \<open>
  A descriptor as the account resolution returns it has the keys \<open>id\<close>, \<open>name\<close>,
  \<open>model\<close> and \<open>access_token\<close>.
\<close>

definition is_descriptor :: "dict \<Rightarrow> bool" where
  "is_descriptor details =
     list_all (dict_contains details) [''id'', ''name'', ''model'', ''access_token'']"

text \<open>A world for the examples: the model \<open>T2118\<close> alone is supported.\<close>

definition example_env :: "dict \<Rightarrow> main_env" where
  "example_env details =
     \<lparr>fetch_first_vacuum = (\<lambda>email password. Inr details),
      discover = (\<lambda>device_id. Inr (PStr ''192.168.1.42'')),
      supported_model = (\<lambda>model_code. model_code = PStr ''T2118''),
      connect_error = None,
      get_error = None,
      state_after_get = Some [(''battery'', PInt 80)],
      clock = ''2024-01-01T00:00:00'',
      interrupt = Some (2, KeyboardInterrupt),
      disconnect_error = None\<rparr>"

definition example_details :: "string \<Rightarrow> dict" where
  "example_details product_code =
     [(''id'', PStr ''v3''), (''name'', PStr ''Robo''), (''model'', PStr product_code),
      (''description'', PStr ''Third''), (''mac'', PStr ''aa:bb''),
      (''access_token'', PStr ''key3'')]"

section \<open>The comprehension computes the ChangeSet\<close>

lemma changes_loop_map_of:
  "set keys \<subseteq> fst ` set cur \<Longrightarrow>
   \<exists>r. changes_loop prev cur keys acc = Inr r \<and>
       map_of r = (\<lambda>k. if k \<in> set keys \<and> spec_changeset (map_of prev) (map_of cur) k \<noteq> None
                        then map_of cur k else map_of acc k)"
proof (induction keys arbitrary: acc)
  case Nil
  then show ?case by simp
next
  case (Cons key keys)
  from Cons.prems have "key \<in> fst ` set cur" by simp
  then obtain v where v: "map_of cur key = Some v"
    by (metis domD dom_map_of_conv_image_fst)
  let ?acc = "if py_ne (dict_get prev key) v then AList.update key v acc else acc"
  from Cons.prems have "set keys \<subseteq> fst ` set cur" by simp
  from Cons.IH[OF this, of ?acc] obtain r where
    r: "changes_loop prev cur keys ?acc = Inr r"
    and m: "map_of r = (\<lambda>k. if k \<in> set keys \<and> spec_changeset (map_of prev) (map_of cur) k \<noteq> None
                        then map_of cur k else map_of ?acc k)"
    by blast
  have step: "changes_loop prev cur (key # keys) acc = Inr r"
    using v r by (simp add: dict_getitem_def)
  have "map_of r k = (if k \<in> set (key # keys) \<and> spec_changeset (map_of prev) (map_of cur) k \<noteq> None
                        then map_of cur k else map_of acc k)" for k
    using v by (simp add: m spec_changeset_def dict_get_def dict_get_default_def update_conv')
  with step show ?case by blast
qed

lemma compute_changes_spec:
  "\<exists>changes. compute_changes prev cur = Inr changes \<and>
     map_of changes = spec_changeset (map_of prev) (map_of cur)"
proof -
  have "set (map fst cur) \<subseteq> fst ` set cur" by simp
  from changes_loop_map_of[OF this, of prev "[]"] obtain r where
    r: "changes_loop prev cur (map fst cur) [] = Inr r"
    and m: "map_of r = (\<lambda>k. if k \<in> set (map fst cur) \<and> spec_changeset (map_of prev) (map_of cur) k \<noteq> None
                        then map_of cur k else map_of [] k)"
    by blast
  have "map_of r k = spec_changeset (map_of prev) (map_of cur) k" for k
  proof (cases "map_of cur k")
    case None
    then show ?thesis by (simp add: m spec_changeset_def)
  next
    case (Some v)
    then have "k \<in> fst ` set cur"
      by (metis domI dom_map_of_conv_image_fst)
    with Some show ?thesis by (simp add: m spec_changeset_def)
  qed
  then have "map_of r = spec_changeset (map_of prev) (map_of cur)" by (rule ext)
  with r show ?thesis by (auto simp: compute_changes_def)
qed

text \<open>
  C1. For every previous snapshot and every non-empty current state, the ChangeSet that
  the update callback computes is
  \<open>{k: current[k] for k in current if previous.get(k) != current[k]}\<close>; the callback
  prints the header, that ChangeSet and a blank line, and when the ChangeSet is empty it
  prints nothing at all.
\<close>

theorem log_state_update_changeset:
  assumes "current_state \<noteq> []"
  shows "\<exists>changes.
           compute_changes previous_state current_state = Inr changes \<and>
           map_of changes = spec_changeset (map_of previous_state) (map_of current_state) \<and>
           log_state_update now (Some (vac\<lparr>state := Some current_state\<rparr>)) previous_state =
             Inr (current_state,
                  if spec_changeset (map_of previous_state) (map_of current_state) = Map.empty
                  then []
                  else [Line (header_line now), JsonBlock (sort_key fst changes), Line []])"
proof -
  from compute_changes_spec obtain changes where
    c: "compute_changes previous_state current_state = Inr changes"
    and m: "map_of changes = spec_changeset (map_of previous_state) (map_of current_state)"
    by blast
  have e: "(changes = []) = (spec_changeset (map_of previous_state) (map_of current_state) = Map.empty)"
    using m by (metis map_of_eq_empty_iff)
  show ?thesis
    using assms c m e by (auto simp: log_state_update_def)
qed

theorem log_state_update_changeset_witness:
  "\<exists>changes.
     compute_changes [(''battery'', PInt 80)] [(''battery'', PInt 80), (''mode'', PStr ''auto'')]
       = Inr changes \<and>
     map_of changes =
       spec_changeset (map_of [(''battery'', PInt 80)])
         (map_of [(''battery'', PInt 80), (''mode'', PStr ''auto'')]) \<and>
     log_state_update ''t''
       (Some (\<lparr>arg_model_code = PStr ''T2118'', arg_device_id = PStr ''d'', arg_host = PStr ''h'',
               arg_local_key = PStr ''k'', state = None\<rparr>
              \<lparr>state := Some [(''battery'', PInt 80), (''mode'', PStr ''auto'')]\<rparr>))
       [(''battery'', PInt 80)] =
       Inr ([(''battery'', PInt 80), (''mode'', PStr ''auto'')],
            if spec_changeset (map_of [(''battery'', PInt 80)])
                 (map_of [(''battery'', PInt 80), (''mode'', PStr ''auto'')]) = Map.empty
            then []
            else [Line (header_line ''t''), JsonBlock (sort_key fst changes), Line []])"
  using log_state_update_changeset
    [of "[(''battery'', PInt 80), (''mode'', PStr ''auto'')]" "[(''battery'', PInt 80)]" "''t''"
        "\<lparr>arg_model_code = PStr ''T2118'', arg_device_id = PStr ''d'', arg_host = PStr ''h'',
          arg_local_key = PStr ''k'', state = None\<rparr>"]
  by simp


section \<open>An update without changes\<close>

lemma compute_changes_empty_agree:
  assumes "compute_changes prev cur = Inr []"
    and "map_of cur k = Some v"
  shows "py_eq (dict_get prev k) v"
proof -
  from compute_changes_spec[of prev cur] assms(1)
  have "spec_changeset (map_of prev) (map_of cur) = map_of []" by auto
  then have "spec_changeset (map_of prev) (map_of cur) k = None" by simp
  with assms(2) show ?thesis
    by (simp add: spec_changeset_def dict_get_def dict_get_default_def py_ne_def
        split: if_splits)
qed

text \<open>
  C3, as stated, fails: the assignment \<open>previous_state = dict(current_state)\<close> comes
  before the test \<open>if not changes: return\<close>. With the snapshot
  \<open>{"battery": 80, "mode": "auto"}\<close> and the state \<open>{"battery": 80}\<close> the ChangeSet is
  empty and nothing is printed, yet the stored snapshot loses the key \<open>mode\<close>.
\<close>

theorem log_state_update_noop_counterexample:
  "compute_changes [(''battery'', PInt 80), (''mode'', PStr ''auto'')] [(''battery'', PInt 80)]
     = Inr [] \<and>
   log_state_update ''t''
     (Some \<lparr>arg_model_code = PStr ''T2118'', arg_device_id = PStr ''d'', arg_host = PStr ''h'',
            arg_local_key = PStr ''k'', state = Some [(''battery'', PInt 80)]\<rparr>)
     [(''battery'', PInt 80), (''mode'', PStr ''auto'')]
     = Inr ([(''battery'', PInt 80)], []) \<and>
   map_of [(''battery'', PInt 80)] ''mode''
     \<noteq> map_of [(''battery'', PInt 80), (''mode'', PStr ''auto'')] ''mode''"
  by (simp add: log_state_update_def compute_changes_def dict_getitem_def dict_get_def
      dict_get_default_def py_ne_def)

text \<open>
  C3, amended. For every previous snapshot and every non-empty current state whose
  ChangeSet is empty, the update callback prints nothing and stores the current state as
  the new snapshot. The current state agrees with the previous snapshot on each of its
  own keys (\<open>previous.get(k) == current[k]\<close>); a key of the previous snapshot that the
  current state lacks is dropped.
\<close>

theorem log_state_update_no_changes:
  assumes "current_state \<noteq> []"
    and "compute_changes previous_state current_state = Inr []"
  shows "log_state_update now (Some (vac\<lparr>state := Some current_state\<rparr>)) previous_state
           = Inr (current_state, []) \<and>
         (\<forall>k v. map_of current_state k = Some v \<longrightarrow> py_eq (dict_get previous_state k) v)"
  using assms compute_changes_empty_agree[OF assms(2)]
  by (simp add: log_state_update_def)

theorem log_state_update_no_changes_witness:
  "log_state_update ''t''
     (Some (\<lparr>arg_model_code = PStr ''T2118'', arg_device_id = PStr ''d'', arg_host = PStr ''h'',
             arg_local_key = PStr ''k'', state = None\<rparr>
            \<lparr>state := Some [(''battery'', PInt 80)]\<rparr>))
     [(''battery'', PInt 80), (''mode'', PStr ''auto'')]
     = Inr ([(''battery'', PInt 80)], []) \<and>
   py_eq (dict_get [(''battery'', PInt 80), (''mode'', PStr ''auto'')] ''battery'') (PInt 80)"
proof -
  have ne: "[(''battery'', PInt 80)] \<noteq> []" by simp
  have ch: "compute_changes [(''battery'', PInt 80), (''mode'', PStr ''auto'')]
              [(''battery'', PInt 80)] = Inr []"
    by (simp add: compute_changes_def dict_getitem_def dict_get_def dict_get_default_def
        py_ne_def)
  have look: "map_of [(''battery'', PInt 80)] ''battery'' = Some (PInt 80)" by simp
  from log_state_update_no_changes[OF ne ch] look show ?thesis
    by blast
qed

section \<open>The first update\<close>

lemma py_ne_None: "py_ne PNone v = (v \<noteq> PNone)"
  by (cases v) (simp_all add: py_ne_def)

lemma first_update_changes:
  "\<exists>changes. compute_changes [] current_state = Inr changes \<and>
     map_of changes =
       (\<lambda>k. case map_of current_state k of
              None \<Rightarrow> None
            | Some v \<Rightarrow> if v = PNone then None else Some v)"
proof -
  from compute_changes_spec[of "[]" current_state] obtain changes where
    c: "compute_changes [] current_state = Inr changes"
    and m: "map_of changes = spec_changeset (map_of []) (map_of current_state)"
    by blast
  have "spec_changeset (map_of []) (map_of current_state) =
          (\<lambda>k. case map_of current_state k of
                 None \<Rightarrow> None
               | Some v \<Rightarrow> if v = PNone then None else Some v)"
    by (rule ext) (simp add: spec_changeset_def py_ne_None split: option.splits)
  with c m show ?thesis by auto
qed

text \<open>
  C4, as stated, fails. The comprehension reads the snapshot with
  \<open>previous_state.get(key)\<close>, which answers \<open>None\<close> for a missing key, so a field
  whose value is \<open>None\<close> compares equal to its own absence: for the first state
  \<open>{"mode": None}\<close> the ChangeSet is empty, not the state, and nothing is printed.
\<close>

theorem first_update_none_counterexample:
  "compute_changes [] [(''mode'', PNone)] = Inr [] \<and>
   map_of [] \<noteq> map_of [(''mode'', PNone)] \<and>
   log_state_update ''t''
     (Some \<lparr>arg_model_code = PStr ''T2118'', arg_device_id = PStr ''d'', arg_host = PStr ''h'',
            arg_local_key = PStr ''k'', state = Some [(''mode'', PNone)]\<rparr>) []
     = Inr ([(''mode'', PNone)], [])"
proof -
  have "map_of [] ''mode'' \<noteq> map_of [(''mode'', PNone)] ''mode''" by simp
  then have "map_of [] \<noteq> map_of [(''mode'', PNone)]" by metis
  then show ?thesis
    by (simp add: log_state_update_def compute_changes_def dict_getitem_def dict_get_def
        dict_get_default_def py_ne_def)
qed

text \<open>
  C4, amended. For every non-empty current state, the first update, against the empty
  snapshot, reports every field whose value is not \<open>None\<close>: its ChangeSet is the
  current state without the fields that hold \<open>None\<close>. When no field holds \<open>None\<close>
  the ChangeSet is the entire current state, and the callback prints it.
\<close>

theorem first_update_reports_fields:
  assumes "current_state \<noteq> []"
  shows "\<exists>changes.
           compute_changes [] current_state = Inr changes \<and>
           map_of changes =
             (\<lambda>k. case map_of current_state k of
                    None \<Rightarrow> None
                  | Some v \<Rightarrow> if v = PNone then None else Some v) \<and>
           ((\<forall>k. map_of current_state k \<noteq> Some PNone) \<longrightarrow>
              map_of changes = map_of current_state \<and>
              log_state_update now (Some (vac\<lparr>state := Some current_state\<rparr>)) [] =
                Inr (current_state,
                     [Line (header_line now), JsonBlock (sort_key fst changes), Line []]))"
proof -
  from first_update_changes[of current_state] obtain changes where
    c: "compute_changes [] current_state = Inr changes"
    and m: "map_of changes =
             (\<lambda>k. case map_of current_state k of
                    None \<Rightarrow> None
                  | Some v \<Rightarrow> if v = PNone then None else Some v)"
    by blast
  have all: "map_of changes = map_of current_state"
    if "\<forall>k. map_of current_state k \<noteq> Some PNone"
  proof (rule ext)
    fix k
    show "map_of changes k = map_of current_state k"
      using that by (cases "map_of current_state k") (auto simp: m)
  qed
  have out: "log_state_update now (Some (vac\<lparr>state := Some current_state\<rparr>)) [] =
                Inr (current_state,
                     [Line (header_line now), JsonBlock (sort_key fst changes), Line []])"
    if "\<forall>k. map_of current_state k \<noteq> Some PNone"
  proof -
    from all[OF that] assms have "changes \<noteq> []"
      by (metis map_of_eq_empty_iff)
    with assms c show ?thesis by (simp add: log_state_update_def)
  qed
  from c m all out show ?thesis by blast
qed

theorem first_update_reports_fields_witness:
  "\<exists>changes.
     compute_changes [] [(''battery'', PInt 80), (''mode'', PStr ''auto'')] = Inr changes \<and>
     map_of changes = map_of [(''battery'', PInt 80), (''mode'', PStr ''auto'')] \<and>
     log_state_update ''t''
       (Some (\<lparr>arg_model_code = PStr ''T2118'', arg_device_id = PStr ''d'', arg_host = PStr ''h'',
               arg_local_key = PStr ''k'', state = None\<rparr>
              \<lparr>state := Some [(''battery'', PInt 80), (''mode'', PStr ''auto'')]\<rparr>)) [] =
       Inr ([(''battery'', PInt 80), (''mode'', PStr ''auto'')],
            [Line (header_line ''t''), JsonBlock (sort_key fst changes), Line []])"
proof -
  have ne: "[(''battery'', PInt 80), (''mode'', PStr ''auto'')] \<noteq> ([] :: dict)" by simp
  have nn: "\<forall>k. map_of [(''battery'', PInt 80), (''mode'', PStr ''auto'')] k \<noteq> Some PNone"
    by simp
  from first_update_reports_fields[OF ne, of "''t''"
      "\<lparr>arg_model_code = PStr ''T2118'', arg_device_id = PStr ''d'', arg_host = PStr ''h'',
        arg_local_key = PStr ''k'', state = None\<rparr>"] nn
  show ?thesis by blast
qed

section \<open>The snapshot is replaced, not merged\<close>

text \<open>
  C5. After an update with a non-empty ChangeSet the stored snapshot is the current
  state itself. A key that only the older snapshot had is not in the new snapshot, and
  in the diff of any later state it is treated as a key never seen before: its old
  value plays no part.
\<close>

theorem log_state_update_replaces_snapshot:
  assumes "current_state \<noteq> []"
    and "compute_changes previous_state current_state = Inr changes"
    and "changes \<noteq> []"
  shows "\<exists>snapshot out.
           log_state_update now (Some (vac\<lparr>state := Some current_state\<rparr>)) previous_state
             = Inr (snapshot, out) \<and>
           out \<noteq> [] \<and> snapshot = current_state \<and>
           (\<forall>k. map_of previous_state k \<noteq> None \<and> map_of current_state k = None \<longrightarrow>
              map_of snapshot k = None \<and>
              (\<forall>later. \<exists>diff. compute_changes snapshot later = Inr diff \<and>
                 map_of diff k = spec_changeset Map.empty (map_of later) k))"
proof -
  have run: "log_state_update now (Some (vac\<lparr>state := Some current_state\<rparr>)) previous_state
      = Inr (current_state,
          [Line (header_line now), JsonBlock (sort_key fst changes), Line []])"
    using assms by (simp add: log_state_update_def)
  have later: "\<exists>diff. compute_changes current_state later = Inr diff \<and>
      map_of diff k = spec_changeset Map.empty (map_of later) k"
    if "map_of current_state k = None" for k later
  proof -
    from compute_changes_spec[of current_state later] obtain diff where
      d: "compute_changes current_state later = Inr diff"
      and m: "map_of diff = spec_changeset (map_of current_state) (map_of later)"
      by blast
    have "map_of diff k = spec_changeset Map.empty (map_of later) k"
      using that by (simp add: m spec_changeset_def split: option.splits)
    with d show ?thesis by blast
  qed
  show ?thesis
    using run later by auto
qed

theorem log_state_update_replaces_snapshot_witness:
  "\<exists>snapshot out.
     log_state_update ''t''
       (Some (\<lparr>arg_model_code = PStr ''T2118'', arg_device_id = PStr ''d'', arg_host = PStr ''h'',
               arg_local_key = PStr ''k'', state = None\<rparr>
              \<lparr>state := Some [(''battery'', PInt 79)]\<rparr>))
       [(''battery'', PInt 80), (''mode'', PStr ''auto'')]
       = Inr (snapshot, out) \<and>
     out \<noteq> [] \<and> snapshot = [(''battery'', PInt 79)] \<and>
     map_of snapshot ''mode'' = None \<and>
     (\<exists>diff. compute_changes snapshot [(''battery'', PInt 79), (''mode'', PStr ''auto'')]
               = Inr diff \<and>
        map_of diff ''mode'' = Some (PStr ''auto''))"
proof -
  have ne: "[(''battery'', PInt 79)] \<noteq> []" by simp
  have ch: "compute_changes [(''battery'', PInt 80), (''mode'', PStr ''auto'')]
              [(''battery'', PInt 79)] = Inr [(''battery'', PInt 79)]"
    by (simp add: compute_changes_def dict_getitem_def dict_get_def dict_get_default_def
        py_ne_def)
  have ne': "[(''battery'', PInt 79)] \<noteq> ([] :: dict)" by simp
  have old: "map_of [(''battery'', PInt 80), (''mode'', PStr ''auto'')] ''mode'' \<noteq> None \<and>
             map_of [(''battery'', PInt 79)] ''mode'' = None"
    by simp
  have later: "spec_changeset Map.empty
                 (map_of [(''battery'', PInt 79), (''mode'', PStr ''auto'')]) ''mode''
               = Some (PStr ''auto'')"
    by (simp add: spec_changeset_def py_ne_def)
  from log_state_update_replaces_snapshot[OF ne ch ne', of "''t''"
      "\<lparr>arg_model_code = PStr ''T2118'', arg_device_id = PStr ''d'', arg_host = PStr ''h'',
        arg_local_key = PStr ''k'', state = None\<rparr>"]
  obtain snapshot out where
    run: "log_state_update ''t''
       (Some (\<lparr>arg_model_code = PStr ''T2118'', arg_device_id = PStr ''d'', arg_host = PStr ''h'',
               arg_local_key = PStr ''k'', state = None\<rparr>
              \<lparr>state := Some [(''battery'', PInt 79)]\<rparr>))
       [(''battery'', PInt 80), (''mode'', PStr ''auto'')]
       = Inr (snapshot, out)"
    and out: "out \<noteq> []" and snap: "snapshot = [(''battery'', PInt 79)]"
    and stale: "\<forall>k. map_of [(''battery'', PInt 80), (''mode'', PStr ''auto'')] k \<noteq> None \<and>
           map_of [(''battery'', PInt 79)] k = None \<longrightarrow>
        map_of snapshot k = None \<and>
        (\<forall>later. \<exists>diff. compute_changes snapshot later = Inr diff \<and>
           map_of diff k = spec_changeset Map.empty (map_of later) k)"
    by blast
  from stale old have gone: "map_of snapshot ''mode'' = None"
    and fut: "\<forall>later. \<exists>diff. compute_changes snapshot later = Inr diff \<and>
           map_of diff ''mode'' = spec_changeset Map.empty (map_of later) ''mode''"
    by blast+
  from fut obtain diff where
    "compute_changes snapshot [(''battery'', PInt 79), (''mode'', PStr ''auto'')] = Inr diff"
    "map_of diff ''mode'' = spec_changeset Map.empty
        (map_of [(''battery'', PInt 79), (''mode'', PStr ''auto'')]) ''mode''"
    by blast
  with later have
    "\<exists>diff. compute_changes snapshot [(''battery'', PInt 79), (''mode'', PStr ''auto'')]
               = Inr diff \<and> map_of diff ''mode'' = Some (PStr ''auto'')"
    by auto
  with run out snap gone show ?thesis by blast
qed

section \<open>Region and country code\<close>

text \<open>
  C2. Region and country code follow the four rules in order: a Tuya home with the
  key \<open>tuya_region_code\<close> gives that region (\<open>"EU"\<close> when the value is empty) and the
  user's phone code, or else the phone code looked up from the region; otherwise a
  profile with a phone code gives the region looked up from it and that phone code;
  otherwise a profile with a country gives the region and the phone code looked up from
  the country; otherwise the region is \<open>"EU"\<close> and the country code \<open>"44"\<close>. The
  derivation never fails on a Tuya home that is a dict.
\<close>

theorem derive_region_country_precedence:
  "derive_region_country cs (PDict tuya_home) user_info =
     Inr (spec_region_country cs (map_of tuya_home) (map_of user_info))"
  by (simp add: derive_region_country_def spec_region_country_def present_value_def
      dict_contains_def dict_getitem_def dict_get_def dict_get_default_def py_or_def Let_def
      split: option.splits)


section \<open>The first usable vacuum\<close>

lemma try_device_wf:
  assumes "wf_device gd item"
  shows "try_device gd item =
           Inr (if usable gd item then Return (descriptor gd item)
                else Continue (skip_log gd item))"
proof -
  from assms obtain d where item: "item = PDict d"
    by (cases item) (simp_all add: wf_device_def)
  from assms item obtain p where p: "dict_get_default d ''product'' (PDict []) = PDict p"
    by (cases "dict_get_default d ''product'' (PDict [])") (simp_all add: wf_device_def)
  from assms item obtain w where w: "dict_get_default d ''wifi'' (PDict []) = PDict w"
    by (cases "dict_get_default d ''wifi'' (PDict [])") (simp_all add: wf_device_def)
  have prod: "entries (dict_get_default d ''product'' PNone) = p"
    using p by (auto simp: dict_get_default_def split: option.splits)
  have wifi: "entries (dict_get_default d ''wifi'' PNone) = w"
    using w by (auto simp: dict_get_default_def split: option.splits)
  show ?thesis
  proof (cases "map_of d ''id''")
    case None
    then show ?thesis
      using item p prod
      by (simp add: bindE_def dict_getitem_def usable_def skip_log_def is_cleaning_def
          appliance_of_def request_local_key_def py_ne_def dict_get_def
          dict_get_default_def[of d "''id''"])
  next
    case (Some ident)
    show ?thesis
    proof (cases "gd ident")
      case (Inl e)
      with assms item Some have "is_exception e" by (simp add: wf_device_def)
      with Inl Some show ?thesis
        using item p prod
        by (simp add: bindE_def dict_getitem_def usable_def skip_log_def is_cleaning_def
            appliance_of_def request_local_key_def py_ne_def dict_get_def
          dict_get_default_def[of d "''id''"])
    next
      case (Inr t)
      with assms item Some obtain td where td: "t = PDict td"
        by (cases t) (simp_all add: wf_device_def)
      show ?thesis
        using Inr Some td item p prod w wifi
        by (simp add: bindE_def dict_getitem_def usable_def skip_log_def is_cleaning_def
            appliance_of_def request_local_key_def py_ne_def descriptor_def py_or_def
            dict_get_def dict_get_default_def[of d "''id''"]
            dict_get_default_def[of td])
    qed
  qed
qed


text \<open>
  C6. On a well-formed device list the loop returns the descriptor of the first device,
  in list order, that is usable: its appliance category is \<open>"Cleaning"\<close> and the Tuya
  API answers its request with a non-empty local key. Every device before it is passed
  over: one of another category silently, a candidate whose request fails with a logged
  error, a candidate without a local key with a logged note. When no device is usable
  the function raises \<open>VacuumLoginError\<close>.
\<close>

theorem find_vacuum_first_usable:
  assumes "\<forall>item \<in> set devices. wf_device get_device item"
  shows "find_vacuum get_device devices =
           (case find (usable get_device) devices of
              None \<Rightarrow> Inl (VacuumLoginError (Text no_vacuum_message))
            | Some item \<Rightarrow> Inr (descriptor get_device item),
            concat (map (skip_log get_device)
              (takeWhile (\<lambda>item. \<not> usable get_device item) devices)))"
  using assms
proof (induction devices)
  case Nil
  then show ?case by simp
next
  case (Cons item devices)
  then have wf: "wf_device get_device item"
    and rest: "\<forall>item \<in> set devices. wf_device get_device item"
    by simp_all
  show ?case
  proof (cases "usable get_device item")
    case True
    then show ?thesis by (simp add: try_device_wf[OF wf])
  next
    case False
    then show ?thesis by (simp add: try_device_wf[OF wf] Cons.IH[OF rest])
  qed
qed

theorem find_vacuum_first_usable_witness:
  "find_vacuum example_get_device example_devices =
     (Inr [(''id'', PStr ''v3''), (''name'', PStr ''Robo''), (''model'', PStr ''T2118ABC''),
           (''description'', PStr ''Third''), (''mac'', PStr ''aa:bb''),
           (''access_token'', PStr ''key3'')],
      [SkipApiError (PStr ''v1'') (OtherException ''tuya request failed''),
       NoLocalKey (PStr ''v2'')])"
proof -
  have wf: "\<forall>item \<in> set example_devices. wf_device example_get_device item"
    by (simp add: example_devices_def example_get_device_def wf_device_def
        dict_get_default_def)
  show ?thesis
    unfolding find_vacuum_first_usable[OF wf]
    by (simp add: example_devices_def example_get_device_def usable_def skip_log_def
        descriptor_def is_cleaning_def appliance_of_def request_local_key_def dict_get_def
        dict_get_default_def)
qed


section \<open>LAN discovery\<close>

lemma deliver_done:
  "future_done fut \<Longrightarrow> deliver device_id payloads fut = (fut, [])"
  by (induction payloads) (simp_all add: handle_discovery_def Let_def)

lemma deliver_pending:
  "deliver device_id payloads Pending =
     (case find (announces device_id) payloads of
        None \<Rightarrow> (Pending, [])
      | Some p \<Rightarrow>
          (Resolved (dict_get p ''ip''), [SetResult device_id (dict_get p ''ip'')]))"
proof (induction payloads)
  case Nil
  then show ?case by simp
next
  case (Cons payload payloads)
  show ?case
  proof (cases "announces device_id payload")
    case True
    then show ?thesis
      by (simp add: handle_discovery_def announces_def py_ne_def Let_def deliver_done)
  next
    case False
    then have "handle_discovery device_id payload Pending = (Pending, [])"
      by (auto simp: handle_discovery_def announces_def py_ne_def Let_def)
    with False Cons.IH show ?thesis by simp
  qed
qed

text \<open>
  C7. A payload whose \<open>gwId\<close> is not the device id leaves the future as it is,
  whatever its state. Over any sequence of payloads the pending future is resolved at
  most once: by the first payload that has the device's \<open>gwId\<close> and a non-empty \<open>ip\<close>,
  with that \<open>ip\<close>; no payload after it, matching or not, sets a result again.
\<close>

theorem handle_discovery_resolves_once:
  "(py_ne (dict_get payload ''gwId'') device_id \<longrightarrow>
      handle_discovery device_id payload fut = (fut, [])) \<and>
   deliver device_id payloads Pending =
     (case find (announces device_id) payloads of
        None \<Rightarrow> (Pending, [])
      | Some p \<Rightarrow>
          (Resolved (dict_get p ''ip''), [SetResult device_id (dict_get p ''ip'')])) \<and>
   (announces device_id payload \<longrightarrow>
      deliver device_id (payload # payloads) Pending =
        (Resolved (dict_get payload ''ip''), [SetResult device_id (dict_get payload ''ip'')]))"
  by (simp add: deliver_pending) (simp add: handle_discovery_def)

theorem handle_discovery_resolves_once_witness:
  "handle_discovery (PStr ''v3'') [(''gwId'', PStr ''zz''), (''ip'', PStr ''10.0.0.9'')] Pending
     = (Pending, []) \<and>
   deliver (PStr ''v3'')
     [[(''gwId'', PStr ''v3''), (''ip'', PStr ''192.168.1.42'')],
      [(''gwId'', PStr ''zz''), (''ip'', PStr ''10.0.0.9'')],
      [(''gwId'', PStr ''v3''), (''ip'', PStr ''192.168.1.42'')],
      [(''gwId'', PStr ''v3''), (''ip'', PStr ''192.168.1.77'')]] Pending
     = (Resolved (PStr ''192.168.1.42''), [SetResult (PStr ''v3'') (PStr ''192.168.1.42'')])"
proof -
  have ne: "py_ne (dict_get [(''gwId'', PStr ''zz''), (''ip'', PStr ''10.0.0.9'')] ''gwId'')
              (PStr ''v3'')"
    by (simp add: py_ne_def dict_get_def dict_get_default_def)
  have an: "announces (PStr ''v3'') [(''gwId'', PStr ''v3''), (''ip'', PStr ''192.168.1.42'')]"
    by (simp add: announces_def dict_get_def dict_get_default_def)
  from handle_discovery_resolves_once
    [of "[(''gwId'', PStr ''zz''), (''ip'', PStr ''10.0.0.9'')]" "PStr ''v3''" Pending "[]"]
    ne
  have a: "handle_discovery (PStr ''v3'')
             [(''gwId'', PStr ''zz''), (''ip'', PStr ''10.0.0.9'')] Pending = (Pending, [])"
    by blast
  from handle_discovery_resolves_once
    [of "[(''gwId'', PStr ''v3''), (''ip'', PStr ''192.168.1.42'')]" "PStr ''v3''" Pending
        "[[(''gwId'', PStr ''zz''), (''ip'', PStr ''10.0.0.9'')],
          [(''gwId'', PStr ''v3''), (''ip'', PStr ''192.168.1.42'')],
          [(''gwId'', PStr ''v3''), (''ip'', PStr ''192.168.1.77'')]]"]
    an
  have b: "deliver (PStr ''v3'')
     [[(''gwId'', PStr ''v3''), (''ip'', PStr ''192.168.1.42'')],
      [(''gwId'', PStr ''zz''), (''ip'', PStr ''10.0.0.9'')],
      [(''gwId'', PStr ''v3''), (''ip'', PStr ''192.168.1.42'')],
      [(''gwId'', PStr ''v3''), (''ip'', PStr ''192.168.1.77'')]] Pending
     = (Resolved (dict_get [(''gwId'', PStr ''v3''), (''ip'', PStr ''192.168.1.42'')] ''ip''),
        [SetResult (PStr ''v3'')
           (dict_get [(''gwId'', PStr ''v3''), (''ip'', PStr ''192.168.1.42'')] ''ip'')])"
    by blast
  from a b show ?thesis
    by (simp add: dict_get_def dict_get_default_def)
qed

text \<open>
  C8. When no payload that arrives before the timeout announces the device,
  \<open>discover_device_ip\<close> raises \<open>VacuumLoginError\<close> with the message that the vacuum
  did not announce itself on the local network; otherwise it returns the first announced
  address. When the listener fails to start because its ports are not available the
  function raises \<open>VacuumLoginError\<close> with that error's text. On each of the three
  paths \<open>discovery.close()\<close> is called exactly once. The timeout is any number of
  seconds, 60 by default.
\<close>

theorem discover_device_ip_closes_once:
  "fst (discover_device_ip device_id timeout
          (map_option DiscoveryPortsNotAvailableException ports_failure) broadcasts) =
     (case ports_failure of
        Some m \<Rightarrow> Inl (VacuumLoginError (Text m))
      | None \<Rightarrow>
          (case find (announces device_id) (arrived_within timeout broadcasts) of
             None \<Rightarrow> Inl (VacuumLoginError (Text timeout_message))
           | Some p \<Rightarrow> Inr (dict_get p ''ip''))) \<and>
   count_list
     (snd (discover_device_ip device_id timeout
             (map_option DiscoveryPortsNotAvailableException ports_failure) broadcasts))
     ListenerClose = 1 \<and>
   discover_device_ip_default device_id
       (map_option DiscoveryPortsNotAvailableException ports_failure) broadcasts =
     discover_device_ip device_id 60
       (map_option DiscoveryPortsNotAvailableException ports_failure) broadcasts"
proof (cases ports_failure)
  case None
  then show ?thesis
    by (simp add: discover_device_ip_def discover_device_ip_default_def arrived_within_def
        deliver_pending split: option.splits)
next
  case (Some m)
  then show ?thesis
    by (simp add: discover_device_ip_def discover_device_ip_default_def)
qed


section \<open>The model code\<close>

lemma find_vacuum_is_descriptor:
  "find_vacuum get_device devices = (Inr details, logged) \<Longrightarrow> is_descriptor details"
proof (induction devices arbitrary: logged)
  case Nil
  then show ?case by simp
next
  case (Cons item devices)
  show ?case
  proof (cases "try_device get_device item")
    case (Inl e)
    with Cons.prems show ?thesis by simp
  next
    case (Inr st)
    show ?thesis
    proof (cases st)
      case (Continue l)
      with Inr Cons.prems obtain l' where "find_vacuum get_device devices = (Inr details, l')"
        by (auto split: prod.splits)
      then show ?thesis by (rule Cons.IH)
    next
      case (Return d)
      with Inr Cons.prems have d: "d = details" by simp
      obtain fs where item: "item = PDict fs"
        using Inr by (cases item) simp_all
      from Inr Return show ?thesis
        unfolding item d
        by (auto simp: bindE_def Let_def is_descriptor_def dict_contains_def
            split: sum.splits if_splits)
    qed
  qed
qed

lemma main_model_code:
  assumes "email \<noteq> []" "password \<noteq> []"
    and "fetch_first_vacuum env email password = Inr details"
    and "is_descriptor details"
    and "dict_get details ''model'' = PStr product_code"
    and "discover env (dict_get details ''id'') = Inr ip"
  shows "main env email password =
           (if product_code = [] then Some (Inl (VacuumLoginError (Text no_model_message)), [])
            else
              (case RoboVac (supported_model env) (PStr (take 5 product_code))
                      (dict_get details ''id'') ip (dict_get details ''access_token'') of
                 Inl err \<Rightarrow>
                   Some (Inl (if err = ModelNotSupportedException
                              then VacuumLoginError
                                     (ModelNotSupportedText (PStr (take 5 product_code)))
                              else err),
                         [Construct (PStr (take 5 product_code))])
               | Inr vacuum \<Rightarrow>
                   map_option (\<lambda>(r, evs). (r, Construct (PStr (take 5 product_code)) # evs))
                     (run_session env vacuum)))"
proof -
  from assms(4) obtain i n m a where
    k: "map_of details ''id'' = Some i" "map_of details ''name'' = Some n"
       "map_of details ''model'' = Some m" "map_of details ''access_token'' = Some a"
    by (auto simp: is_descriptor_def dict_contains_def)
  from k assms(5) have m: "m = PStr product_code"
    by (simp add: dict_get_def dict_get_default_def)
  show ?thesis
    using assms(1,2,3,6) k m
    by (simp add: main_def bindE_def dict_getitem_def dict_get_def dict_get_default_def
        update_conv' py_or_def)
qed

text \<open>
  C9. Let the account resolution return a descriptor and the discovery an address. If
  the model code, the first five characters of the descriptor's product code, is not a
  supported model, \<open>main\<close> raises \<open>VacuumLoginError\<close> and never calls
  \<open>async_connect\<close>. For a non-empty code the constructor of the session is called,
  fails with \<open>ModelNotSupportedException\<close>, and nothing else happens to the session.
\<close>

theorem main_unsupported_model:
  assumes "email \<noteq> []" "password \<noteq> []"
    and "fetch_first_vacuum env email password = Inr details"
    and "is_descriptor details"
    and "dict_get details ''model'' = PStr product_code"
    and "discover env (dict_get details ''id'') = Inr ip"
    and "\<not> supported_model env (PStr (take 5 product_code))"
  shows "\<exists>reason evs.
           main env email password = Some (Inl (VacuumLoginError reason), evs) \<and>
           Connect \<notin> set evs \<and>
           (product_code \<noteq> [] \<longrightarrow>
              RoboVac (supported_model env) (PStr (take 5 product_code))
                (dict_get details ''id'') ip (dict_get details ''access_token'')
                = Inl ModelNotSupportedException \<and>
              reason = ModelNotSupportedText (PStr (take 5 product_code)) \<and>
              evs = [Construct (PStr (take 5 product_code))])"
proof -
  have ctor: "RoboVac (supported_model env) (PStr (take 5 product_code))
                (dict_get details ''id'') ip (dict_get details ''access_token'')
                = Inl ModelNotSupportedException"
    using assms(7) by (simp add: RoboVac_def)
  show ?thesis
    unfolding main_model_code[OF assms(1-6)] ctor by simp
qed

theorem main_unsupported_model_witness:
  "\<exists>reason evs.
     main (example_env (example_details ''T9999ABC'')) ''me@example.org'' ''secret''
       = Some (Inl (VacuumLoginError reason), evs) \<and>
     Connect \<notin> set evs \<and>
     reason = ModelNotSupportedText (PStr ''T9999'') \<and>
     evs = [Construct (PStr ''T9999'')]"
proof -
  have a: "''me@example.org'' \<noteq> []" "''secret'' \<noteq> []" by simp_all
  have f: "fetch_first_vacuum (example_env (example_details ''T9999ABC''))
             ''me@example.org'' ''secret'' = Inr (example_details ''T9999ABC'')"
    by (simp add: example_env_def)
  have d: "is_descriptor (example_details ''T9999ABC'')"
    by (simp add: is_descriptor_def example_details_def dict_contains_def)
  have m: "dict_get (example_details ''T9999ABC'') ''model'' = PStr ''T9999ABC''"
    by (simp add: example_details_def dict_get_def dict_get_default_def)
  have i: "discover (example_env (example_details ''T9999ABC''))
             (dict_get (example_details ''T9999ABC'') ''id'') = Inr (PStr ''192.168.1.42'')"
    by (simp add: example_env_def)
  have u: "\<not> supported_model (example_env (example_details ''T9999ABC''))
               (PStr (take 5 ''T9999ABC''))"
    by (simp add: example_env_def)
  from main_unsupported_model[OF a f d m i u] show ?thesis
    by auto
qed

text \<open>
  C10. Let the account resolution return a descriptor and the discovery an address.
  If the descriptor's product code is empty (the empty string, or any other value that
  counts as false, such as \<open>None\<close>), \<open>main\<close> raises \<open>VacuumLoginError\<close> with the
  message that the vacuum did not report a model code, and the constructor of the
  session is never called.
\<close>

theorem main_empty_product_code:
  assumes "email \<noteq> []" "password \<noteq> []"
    and "fetch_first_vacuum env email password = Inr details"
    and "is_descriptor details"
    and "\<not> truthy (dict_get details ''model'')"
    and "discover env (dict_get details ''id'') = Inr ip"
  shows "main env email password =
           Some (Inl (VacuumLoginError (Text no_model_message)), [])"
proof -
  from assms(4) obtain i n m a where
    k: "map_of details ''id'' = Some i" "map_of details ''name'' = Some n"
       "map_of details ''model'' = Some m" "map_of details ''access_token'' = Some a"
    by (auto simp: is_descriptor_def dict_contains_def)
  from k assms(5) have m: "\<not> truthy m"
    by (simp add: dict_get_def dict_get_default_def)
  show ?thesis
    using assms(1,2,3,6) k m
    by (simp add: main_def bindE_def dict_getitem_def dict_get_def dict_get_default_def
        update_conv' py_or_def)
qed

theorem main_empty_product_code_witness:
  "main (example_env (example_details [])) ''me@example.org'' ''secret'' =
     Some (Inl (VacuumLoginError (Text no_model_message)), [])"
proof -
  have a: "''me@example.org'' \<noteq> []" "''secret'' \<noteq> []" by simp_all
  have f: "fetch_first_vacuum (example_env (example_details []))
             ''me@example.org'' ''secret'' = Inr (example_details [])"
    by (simp add: example_env_def)
  have d: "is_descriptor (example_details [])"
    by (simp add: is_descriptor_def example_details_def dict_contains_def)
  have m: "\<not> truthy (dict_get (example_details []) ''model'')"
    by (simp add: example_details_def dict_get_def dict_get_default_def)
  have i: "discover (example_env (example_details []))
             (dict_get (example_details []) ''id'') = Inr (PStr ''192.168.1.42'')"
    by (simp add: example_env_def)
  show ?thesis
    by (rule main_empty_product_code[OF a f d m i])
qed

end
